theory Spec2Isabelle
  imports Complex_Main
begin

section \<open>Correlation analysis of two price series (algorithms/correlation.py)\<close>

text \<open>
  The module has two static methods, \<open>fetch_stock_data\<close> and \<open>calculate\<close>. Both are
  embedded below, statement by statement. What the module takes from outside is made a
  parameter or a value of the model:
  \<^item> \<open>yf.download\<close> is the function \<open>download\<close> of the environment; every call made to it
    is appended to the list of calls, the only state the module touches;
  \<^item> \<open>datetime.now()\<close> is the value \<open>now\<close> of the environment;
  \<^item> a raised exception is a value \<open>Exn kind message\<close> on the left of a sum;
  \<^item> a float is a real number, one of the two infinities, or NaN. The arithmetic on the
    finite values is exact: the rounding error and the overflow of binary64 are not part
    of the model, the propagation of NaN and of the infinities is;
  \<^item> the pandas operations (\<open>concat\<close>, \<open>pct_change\<close>, \<open>dropna\<close>, \<open>corr\<close>, \<open>cov\<close>) are
    functions on lists, written after the library's documented behaviour.
\<close>

subsection \<open>Exceptions\<close>

text \<open>An exception object, an instance of a subclass of \<open>Exception\<close> (what the handlers
  \<open>except Exception\<close> of the module catch): the name of its class and \<open>str(e)\<close>.\<close>

datatype exn = Exn (exn_kind: string) (exn_msg: string)

definition ValueError :: "string \<Rightarrow> exn" where
  "ValueError m = Exn ''ValueError'' m"

subsection \<open>Dates\<close>

text \<open>
  A \<open>date\<close> is its proleptic Gregorian ordinal (\<open>date.toordinal()\<close>, from 1 for 0001-01-01
  to 3652059 for 9999-12-31); a \<open>datetime\<close> is a day ordinal and the time of day in
  microseconds. The arguments of \<open>calculate\<close> may be either.
\<close>

datatype pydate = Date int | DateTime int nat

definition min_ordinal :: int where
  "min_ordinal = 1"

definition max_ordinal :: int where
  "max_ordinal = 3652059"

text \<open>\<open>d - timedelta(days=n)\<close>: the class of \<open>d\<close> is kept, and a result before year 1 or after
  year 9999 raises \<open>OverflowError\<close>.\<close>

fun sub_days :: "pydate \<Rightarrow> int \<Rightarrow> exn + pydate" where
  "sub_days (Date d) n =
     (if min_ordinal \<le> d - n \<and> d - n \<le> max_ordinal then Inr (Date (d - n))
      else Inl (Exn ''OverflowError'' ''date value out of range''))"
| "sub_days (DateTime d t) n =
     (if min_ordinal \<le> d - n \<and> d - n \<le> max_ordinal then Inr (DateTime (d - n) t)
      else Inl (Exn ''OverflowError'' ''date value out of range''))"

text \<open>\<open>x.date() if isinstance(x, datetime) else x\<close>: the calendar date, the time of day
  discarded.\<close>

fun to_date :: "pydate \<Rightarrow> int" where
  "to_date (DateTime d t) = d"
| "to_date (Date d) = d"

subsection \<open>Floats\<close>

text \<open>
  A float is a real number, an infinity or NaN. The operations follow IEEE 754 in what
  they return for NaN, for the infinities and for a division by zero. On two finite
  values they are exact: binary64 rounds and overflows where this model does not, so a
  number computed here can differ from the one the program computes (a variance that is
  0 here and a rounding residue there, a finite product here and an infinity there). The
  statements below use of the arithmetic only what both share: which operations return
  NaN, sums and products of zeros, and the clip of the correlation.
\<close>

datatype pyfloat = Num real | PInf | NInf | NaN

fun isna :: "pyfloat \<Rightarrow> bool" where
  "isna NaN = True"
| "isna _ = False"

fun fneg :: "pyfloat \<Rightarrow> pyfloat" where
  "fneg (Num x) = Num (- x)"
| "fneg PInf = NInf"
| "fneg NInf = PInf"
| "fneg NaN = NaN"

fun fadd :: "pyfloat \<Rightarrow> pyfloat \<Rightarrow> pyfloat" where
  "fadd NaN _ = NaN"
| "fadd _ NaN = NaN"
| "fadd (Num x) (Num y) = Num (x + y)"
| "fadd PInf NInf = NaN"
| "fadd NInf PInf = NaN"
| "fadd PInf _ = PInf"
| "fadd NInf _ = NInf"
| "fadd (Num x) PInf = PInf"
| "fadd (Num x) NInf = NInf"

definition fsub :: "pyfloat \<Rightarrow> pyfloat \<Rightarrow> pyfloat" where
  "fsub a b = fadd a (fneg b)"

text \<open>The sign of a float, for the products and quotients with an infinity: 1, -1 or 0.\<close>

fun fsign :: "pyfloat \<Rightarrow> int" where
  "fsign (Num x) = (if 0 < x then 1 else if x < 0 then - 1 else 0)"
| "fsign PInf = 1"
| "fsign NInf = - 1"
| "fsign NaN = 0"

definition inf_of_sign :: "int \<Rightarrow> pyfloat" where
  "inf_of_sign s = (if 0 < s then PInf else if s < 0 then NInf else NaN)"

fun fmul :: "pyfloat \<Rightarrow> pyfloat \<Rightarrow> pyfloat" where
  "fmul NaN _ = NaN"
| "fmul _ NaN = NaN"
| "fmul (Num x) (Num y) = Num (x * y)"
| "fmul a b = inf_of_sign (fsign a * fsign b)"

text \<open>Division as numpy does it: no exception, \<open>x / 0\<close> is an infinity of the sign of \<open>x\<close>
  and \<open>0 / 0\<close> is NaN (the zero of the model is the positive zero).\<close>

fun fdiv :: "pyfloat \<Rightarrow> pyfloat \<Rightarrow> pyfloat" where
  "fdiv NaN _ = NaN"
| "fdiv _ NaN = NaN"
| "fdiv (Num x) (Num y) = (if y = 0 then inf_of_sign (fsign (Num x)) else Num (x / y))"
| "fdiv (Num x) _ = Num 0"
| "fdiv a (Num y) = inf_of_sign (fsign a * (if y < 0 then - 1 else 1))"
| "fdiv _ _ = NaN"

fun fsqrt :: "pyfloat \<Rightarrow> pyfloat" where
  "fsqrt (Num x) = (if x < 0 then NaN else Num (sqrt x))"
| "fsqrt PInf = PInf"
| "fsqrt _ = NaN"

text \<open>\<open>np.clip(c, -1, 1)\<close>: NaN stays NaN.\<close>

fun fclip :: "pyfloat \<Rightarrow> pyfloat" where
  "fclip (Num x) = Num (max (- 1) (min 1 x))"
| "fclip PInf = Num 1"
| "fclip NInf = Num (- 1)"
| "fclip NaN = NaN"

text \<open>\<open>round(x, n)\<close> of a float: to the nearest multiple of \<open>10 ^ -n\<close>, a tie to the even
  one; NaN and the infinities are returned as they are. The number rounded is the real
  number of the model, not its binary64 neighbour, so a tie here need not be one there.\<close>

definition round_half_even :: "real \<Rightarrow> int" where
  "round_half_even x =
     (let f = \<lfloor>x\<rfloor>; d = x - of_int f
      in if d < 1 / 2 then f else if 1 / 2 < d then f + 1 else if even f then f else f + 1)"

fun py_round :: "pyfloat \<Rightarrow> nat \<Rightarrow> pyfloat" where
  "py_round (Num x) n = Num (of_int (round_half_even (x * 10 ^ n)) / 10 ^ n)"
| "py_round v n = v"

subsection \<open>Series and frames\<close>

text \<open>
  A Series is the list of its (index, value) pairs, in index order as stored; the index
  of a daily price series is the day ordinal of each bar. The DataFrame that
  \<open>yf.download\<close> returns is its index and its named columns, the names distinct and
  every column as long as the index. The two-column frames of \<open>calculate\<close> are lists of
  rows (index, first column, second column).
\<close>

type_synonym series = "(int \<times> pyfloat) list"

record frame =
  f_index :: "int list"
  f_columns :: "(string \<times> pyfloat list) list"

type_synonym table = "(int \<times> pyfloat \<times> pyfloat) list"

text \<open>\<open>data.empty\<close>: an axis of length 0.\<close>

definition empty_frame :: "frame \<Rightarrow> bool" where
  "empty_frame data = (f_index data = [] \<or> f_columns data = [])"

text \<open>\<open>data[name]\<close> for a name among the columns.\<close>

definition getitem :: "frame \<Rightarrow> string \<Rightarrow> series" where
  "getitem data name =
     (case map_of (f_columns data) name of
        Some vs \<Rightarrow> zip (f_index data) vs
      | None \<Rightarrow> [])"

definition col1 :: "table \<Rightarrow> series" where
  "col1 t = map (\<lambda>(d, a, b). (d, a)) t"

definition col2 :: "table \<Rightarrow> series" where
  "col2 t = map (\<lambda>(d, a, b). (d, b)) t"

definition cell :: "series \<Rightarrow> int \<Rightarrow> pyfloat" where
  "cell s d = (case map_of s d of Some v \<Rightarrow> v | None \<Rightarrow> NaN)"

text \<open>
  \<open>pd.concat([s1, s2], axis=1)\<close>, an outer join on the index. Two equal indexes are kept
  as they are. Otherwise the index of the result is the union of the two indexes, every
  label as often as in the index that has it most, and sorted (as the library does for a
  DatetimeIndex). A series whose index is not the index of the result is reindexed to
  it: a label that the series lacks gets NaN, and a series with a duplicate label cannot
  be reindexed, which raises \<open>ValueError\<close>.
\<close>

definition union_index :: "int list \<Rightarrow> int list \<Rightarrow> int list" where
  "union_index i1 i2 = sort (i1 @ fold remove1 i1 i2)"

definition reindex :: "series \<Rightarrow> int list \<Rightarrow> exn + pyfloat list" where
  "reindex s idx =
     (if map fst s = idx then Inr (map snd s)
      else if \<not> distinct (map fst s)
      then Inl (ValueError ''cannot reindex on an axis with duplicate labels'')
      else Inr (map (cell s) idx))"

definition concat_axis1 :: "series \<Rightarrow> series \<Rightarrow> exn + table" where
  "concat_axis1 s1 s2 =
     (let i1 = map fst s1; i2 = map fst s2;
          idx = (if i1 = i2 then i1 else union_index i1 i2)
      in (case reindex s1 idx of
            Inl e \<Rightarrow> Inl e
          | Inr c1 \<Rightarrow>
              (case reindex s2 idx of
                 Inl e \<Rightarrow> Inl e
               | Inr c2 \<Rightarrow> Inr (zip idx (zip c1 c2)))))"

text \<open>
  \<open>DataFrame.pct_change()\<close>, column by column: \<open>data / data.shift(1) - 1\<close>, so the first row
  is NaN. Up to pandas 2 the default \<open>fill_method='pad'\<close> first forward-fills every NaN
  after the first valid value of the column; from pandas 3 nothing is filled. The flag
  \<open>pad\<close> of the environment says which.
\<close>

fun ffill :: "pyfloat \<Rightarrow> pyfloat list \<Rightarrow> pyfloat list" where
  "ffill prev [] = []"
| "ffill prev (x # xs) = (let v = (if isna x then prev else x) in v # ffill v xs)"

definition shift1 :: "pyfloat list \<Rightarrow> pyfloat list" where
  "shift1 xs = (case xs of [] \<Rightarrow> [] | _ # _ \<Rightarrow> NaN # butlast xs)"

definition pct_change_col :: "bool \<Rightarrow> pyfloat list \<Rightarrow> pyfloat list" where
  "pct_change_col pad xs =
     (let data = (if pad then ffill NaN xs else xs)
      in map (\<lambda>(x, p). fsub (fdiv x p) (Num 1)) (zip data (shift1 data)))"

definition pct_change :: "bool \<Rightarrow> table \<Rightarrow> table" where
  "pct_change pad t =
     zip (map fst t)
       (zip (pct_change_col pad (map snd (col1 t))) (pct_change_col pad (map snd (col2 t))))"

text \<open>\<open>DataFrame.dropna()\<close>: the rows without any NaN.\<close>

definition dropna :: "table \<Rightarrow> table" where
  "dropna t = filter (\<lambda>(d, a, b). \<not> isna a \<and> \<not> isna b) t"

subsection \<open>Covariance and correlation\<close>

text \<open>
  \<open>Series.cov\<close> is \<open>np.cov(a, b, ddof=1)[0, 1]\<close> and \<open>Series.corr\<close> is
  \<open>np.corrcoef(a, b)[0, 1]\<close>, on the values of two series with the same index and no NaN:
  the deviations from the mean, their products summed and divided by \<open>n - 1\<close>; the
  correlation divides the covariance by the two standard deviations and clips it.
\<close>

definition fsum :: "pyfloat list \<Rightarrow> pyfloat" where
  "fsum xs = foldl fadd (Num 0) xs"

definition fmean :: "pyfloat list \<Rightarrow> pyfloat" where
  "fmean xs = fdiv (fsum xs) (Num (real (length xs)))"

definition demean :: "pyfloat list \<Rightarrow> pyfloat list" where
  "demean xs = map (\<lambda>x. fsub x (fmean xs)) xs"

definition fdot :: "pyfloat list \<Rightarrow> pyfloat list \<Rightarrow> pyfloat" where
  "fdot xs ys = fsum (map (\<lambda>(x, y). fmul x y) (zip xs ys))"

definition np_cov :: "pyfloat list \<Rightarrow> pyfloat list \<Rightarrow> pyfloat" where
  "np_cov xs ys = fdiv (fdot (demean xs) (demean ys)) (Num (real (length xs) - 1))"

definition np_corrcoef :: "pyfloat list \<Rightarrow> pyfloat list \<Rightarrow> pyfloat" where
  "np_corrcoef xs ys =
     fclip (fdiv (fdiv (np_cov xs ys) (fsqrt (np_cov xs xs))) (fsqrt (np_cov ys ys)))"

definition corr :: "series \<Rightarrow> series \<Rightarrow> pyfloat" where
  "corr a b = np_corrcoef (map snd a) (map snd b)"

definition cov :: "series \<Rightarrow> series \<Rightarrow> pyfloat" where
  "cov a b = np_cov (map snd a) (map snd b)"

subsection \<open>The environment and the list of downloads\<close>

type_synonym call = "string \<times> pydate \<times> pydate"

record env =
  download :: "string \<Rightarrow> pydate \<Rightarrow> pydate \<Rightarrow> exn + frame"
  now :: pydate
  pad :: bool

subsection \<open>fetch\_stock\_data\<close>

text \<open>The body of the \<open>try\<close>: the download, the check, the column.\<close>

definition fetch_try :: "env \<Rightarrow> string \<Rightarrow> pydate \<Rightarrow> pydate \<Rightarrow> exn + series" where
  "fetch_try ev ticker start_date end_date =
     (case download ev ticker start_date end_date of
        Inl e \<Rightarrow> Inl e
      | Inr data \<Rightarrow>
          if empty_frame data \<or> ''Adj Close'' \<notin> set (map fst (f_columns data))
          then Inl (ValueError (''No data found for ticker '' @ ticker))
          else Inr (getitem data ''Adj Close''))"

text \<open>The handler \<open>except Exception as e\<close> around it, and the call recorded.\<close>

definition fetch_stock_data ::
  "env \<Rightarrow> string \<Rightarrow> pydate \<Rightarrow> pydate \<Rightarrow> call list \<Rightarrow> (exn + series) \<times> call list" where
  "fetch_stock_data ev ticker start_date end_date calls =
     (case fetch_try ev ticker start_date end_date of
        Inl e \<Rightarrow>
          (Inl (ValueError (''Error fetching data for '' @ ticker @ '': '' @ exn_msg e)),
           calls @ [(ticker, start_date, end_date)])
      | Inr s \<Rightarrow> (Inr s, calls @ [(ticker, start_date, end_date)]))"

subsection \<open>calculate\<close>

record result =
  correlation :: pyfloat
  covariance :: pyfloat
  start_date :: int
  end_date :: int
  ticker1 :: string
  ticker2 :: string
  data_points :: nat
  first_date :: int
  last_date :: int
  trading_days :: nat

text \<open>Steps 4 and 5: the combined frame and the cleaned returns.\<close>

definition returns_of :: "bool \<Rightarrow> table \<Rightarrow> table" where
  "returns_of pd combined_data = dropna (pct_change pd combined_data)"

text \<open>
  Steps 6 to 8 on the cleaned returns. With \<open>ticker1 = ticker2\<close> the frame has two
  columns of one name, \<open>returns[ticker1]\<close> is a DataFrame and not a Series, and its
  \<open>corr\<close> raises on the comparison of its argument with a method name. The dates
  \<open>first_date\<close> and \<open>last_date\<close> stand for their rendering by \<open>strftime("%Y-%m-%d")\<close>.
\<close>

definition statistics ::
  "string \<Rightarrow> string \<Rightarrow> int \<Rightarrow> int \<Rightarrow> table \<Rightarrow> table \<Rightarrow> exn + result" where
  "statistics tk1 tk2 start_date_val end_date_val combined_data returns =
     (if length returns < 2
      then Inl (ValueError ''Insufficient data points for correlation calculation'')
      else if tk1 = tk2
      then Inl (ValueError ''The truth value of a DataFrame is ambiguous. Use a.empty, a.bool(), a.item(), a.any() or a.all().'')
      else
        let correlation = corr (col1 returns) (col2 returns);
            covariance = cov (col1 returns) (col2 returns)
        in if isna correlation \<or> isna covariance
           then Inl (ValueError ''Calculation resulted in NaN values'')
           else Inr \<lparr> correlation = py_round correlation 4,
                      covariance = py_round covariance 6,
                      start_date = start_date_val,
                      end_date = end_date_val,
                      ticker1 = tk1,
                      ticker2 = tk2,
                      data_points = length returns,
                      first_date = fst (hd returns),
                      last_date = fst (last returns),
                      trading_days = length combined_data \<rparr>)"

text \<open>Steps 1 and 2: the defaults of the two dates and their calendar dates.\<close>

definition default_end :: "env \<Rightarrow> pydate option \<Rightarrow> pydate" where
  "default_end ev end_opt = (case end_opt of Some e \<Rightarrow> e | None \<Rightarrow> now ev)"

definition default_start :: "pydate option \<Rightarrow> pydate \<Rightarrow> exn + pydate" where
  "default_start start_opt end_d =
     (case start_opt of Some s \<Rightarrow> Inr s | None \<Rightarrow> sub_days end_d 365)"

text \<open>The body of the \<open>try\<close> of \<open>calculate\<close>.\<close>

definition calculate_try ::
  "env \<Rightarrow> string \<Rightarrow> string \<Rightarrow> pydate option \<Rightarrow> pydate option \<Rightarrow> call list
     \<Rightarrow> (exn + result) \<times> call list" where
  "calculate_try ev tk1 tk2 start_opt end_opt calls =
     (let end_dt = default_end ev end_opt
      in (case default_start start_opt end_dt of
            Inl e \<Rightarrow> (Inl e, calls)
          | Inr start_dt \<Rightarrow>
              (let start_date_val = to_date start_dt;
                   end_date_val = to_date end_dt
               in (case fetch_stock_data ev tk1 start_dt end_dt calls of
                     (Inl e, calls1) \<Rightarrow> (Inl e, calls1)
                   | (Inr stock1_data, calls1) \<Rightarrow>
                       (case fetch_stock_data ev tk2 start_dt end_dt calls1 of
                          (Inl e, calls2) \<Rightarrow> (Inl e, calls2)
                        | (Inr stock2_data, calls2) \<Rightarrow>
                            (case concat_axis1 stock1_data stock2_data of
                               Inl e \<Rightarrow> (Inl e, calls2)
                             | Inr combined_data \<Rightarrow>
                                 (statistics tk1 tk2 start_date_val end_date_val
                                    combined_data (returns_of (pad ev) combined_data),
                                  calls2)))))))"

text \<open>The handler \<open>except Exception as e\<close> of \<open>calculate\<close>.\<close>

definition calculate ::
  "env \<Rightarrow> string \<Rightarrow> string \<Rightarrow> pydate option \<Rightarrow> pydate option \<Rightarrow> call list
     \<Rightarrow> (exn + result) \<times> call list" where
  "calculate ev tk1 tk2 start_opt end_opt calls =
     (case calculate_try ev tk1 tk2 start_opt end_opt calls of
        (Inl e, calls') \<Rightarrow> (Inl (ValueError (''Calculation error: '' @ exn_msg e)), calls')
      | (Inr r, calls') \<Rightarrow> (Inr r, calls'))"

subsection \<open>The first four steps\<close>

text \<open>
  Steps 1 to 4 of \<open>calculate\<close> without the list of calls: the two dates after the
  defaults and the combined frame, or the exception that stopped the steps. It is the
  prefix of \<open>calculate_try\<close> (lemma \<open>calculate_try_pipeline\<close>) and is used to say
  "the steps reached the combined frame" in the statements below.
\<close>

definition pipeline ::
  "env \<Rightarrow> string \<Rightarrow> string \<Rightarrow> pydate option \<Rightarrow> pydate option
     \<Rightarrow> exn + (pydate \<times> pydate \<times> table)" where
  "pipeline ev tk1 tk2 start_opt end_opt =
     (let e = default_end ev end_opt
      in (case default_start start_opt e of
            Inl x \<Rightarrow> Inl x
          | Inr s \<Rightarrow>
              (case fst (fetch_stock_data ev tk1 s e []) of
                 Inl x \<Rightarrow> Inl x
               | Inr s1 \<Rightarrow>
                   (case fst (fetch_stock_data ev tk2 s e []) of
                      Inl x \<Rightarrow> Inl x
                    | Inr s2 \<Rightarrow>
                        (case concat_axis1 s1 s2 of
                           Inl x \<Rightarrow> Inl x
                         | Inr combined \<Rightarrow> Inr (s, e, combined))))))"

subsection \<open>Environments for the examples\<close>

text \<open>Two tickers with the same four trading days; the prices of BBB are twice those of
  AAA. The clock shows 14:30.\<close>

definition frame_ok :: "string \<Rightarrow> frame" where
  "frame_ok t =
     \<lparr> f_index = [738991, 738992, 738993, 738994],
       f_columns = [(''Close'', [Num 1, Num 1, Num 2, Num 6]),
                    (''Adj Close'',
                     if t = ''AAA'' then [Num 1, Num 1, Num 2, Num 6]
                     else [Num 2, Num 2, Num 4, Num 12])] \<rparr>"

definition env_ok :: env where
  "env_ok = \<lparr> download = (\<lambda>t s e. Inr (frame_ok t)),
              now = DateTime 739000 52200000000,
              pad = False \<rparr>"

text \<open>A source without rows, and a source that raises.\<close>

definition env_no_rows :: env where
  "env_no_rows = \<lparr> download = (\<lambda>t s e. Inr \<lparr> f_index = [], f_columns = [(''Adj Close'', [])] \<rparr>),
                   now = DateTime 739000 52200000000,
                   pad = False \<rparr>"

definition env_raises :: env where
  "env_raises = \<lparr> download = (\<lambda>t s e. Inl (Exn ''ConnectionError'' (''No data found for ticker '' @ t))),
                  now = DateTime 739000 52200000000,
                  pad = False \<rparr>"

text \<open>A source that answers for AAA and raises for every other ticker.\<close>

definition env_second_raises :: env where
  "env_second_raises =
     \<lparr> download = (\<lambda>t s e. if t = ''AAA'' then Inr (frame_ok t)
                                else Inl (Exn ''TimeoutError'' ''timed out'')),
       now = DateTime 739000 52200000000,
       pad = False \<rparr>"

text \<open>Two tickers with different trading days: BBB lacks day 738993.\<close>

definition env_gap :: env where
  "env_gap =
     \<lparr> download = (\<lambda>t s e.
         if t = ''AAA''
         then Inr \<lparr> f_index = [738991, 738992, 738993, 738994, 738995, 738996],
                    f_columns = [(''Adj Close'', [Num 1, Num 1, Num 1, Num 1, Num 2, Num 6])] \<rparr>
         else Inr \<lparr> f_index = [738991, 738992, 738994, 738995, 738996],
                    f_columns = [(''Adj Close'', [Num 2, Num 2, Num 2, Num 4, Num 12])] \<rparr>),
       now = DateTime 739000 52200000000,
       pad = False \<rparr>"

text \<open>Two trading days only; and a ticker, FLAT, whose price never moves.\<close>

definition env_short :: env where
  "env_short =
     \<lparr> download = (\<lambda>t s e.
         Inr \<lparr> f_index = [738991, 738992],
               f_columns = [(''Adj Close'', if t = ''AAA'' then [Num 1, Num 2] else [Num 3, Num 4])] \<rparr>),
       now = DateTime 739000 52200000000,
       pad = False \<rparr>"

definition env_flat :: env where
  "env_flat =
     \<lparr> download = (\<lambda>t s e.
         Inr \<lparr> f_index = [738991, 738992, 738993, 738994],
               f_columns = [(''Adj Close'',
                            if t = ''FLAT'' then [Num 5, Num 5, Num 5, Num 5]
                            else [Num 1, Num 1, Num 2, Num 6])] \<rparr>),
       now = DateTime 739000 52200000000,
       pad = False \<rparr>"





section \<open>Properties\<close>

subsection \<open>The fetcher and the handlers\<close>

lemma fetch_stock_data_cases:
  "fst (fetch_stock_data ev ticker s e calls) =
     (case download ev ticker s e of
        Inl x \<Rightarrow> Inl (ValueError (''Error fetching data for '' @ ticker @ '': '' @ exn_msg x))
      | Inr data \<Rightarrow>
          if empty_frame data \<or> ''Adj Close'' \<notin> set (map fst (f_columns data))
          then Inl (ValueError (''Error fetching data for '' @ ticker @ '': ''
                                  @ ''No data found for ticker '' @ ticker))
          else Inr (getitem data ''Adj Close''))"
  by (simp add: fetch_stock_data_def fetch_try_def ValueError_def split: sum.splits)

lemma fetch_stock_data_eq:
  "fetch_stock_data ev ticker s e calls =
     (fst (fetch_stock_data ev ticker s e []), calls @ [(ticker, s, e)])"
  by (simp add: fetch_stock_data_def split: sum.splits)

lemma calculate_try_pipeline:
  "fst (calculate_try ev tk1 tk2 start_opt end_opt calls) =
     (case pipeline ev tk1 tk2 start_opt end_opt of
        Inl x \<Rightarrow> Inl x
      | Inr (s, e, combined) \<Rightarrow>
          statistics tk1 tk2 (to_date s) (to_date e) combined (returns_of (pad ev) combined))"
  unfolding calculate_try_def pipeline_def Let_def
  apply (subst fetch_stock_data_eq)
  apply (subst (2) fetch_stock_data_eq)
  apply (simp split: sum.splits)
  done

lemma calculate_try_calls:
  "snd (calculate_try ev tk1 tk2 start_opt end_opt calls) =
     (let e = default_end ev end_opt
      in (case default_start start_opt e of
            Inl x \<Rightarrow> calls
          | Inr s \<Rightarrow>
              (case fst (fetch_stock_data ev tk1 s e []) of
                 Inl x \<Rightarrow> calls @ [(tk1, s, e)]
               | Inr s1 \<Rightarrow> calls @ [(tk1, s, e), (tk2, s, e)])))"
  unfolding calculate_try_def Let_def
  apply (subst fetch_stock_data_eq)
  apply (subst (2) fetch_stock_data_eq)
  apply (simp split: sum.splits)
  done

lemma calculate_fst:
  "fst (calculate ev tk1 tk2 start_opt end_opt calls) =
     (case fst (calculate_try ev tk1 tk2 start_opt end_opt calls) of
        Inl x \<Rightarrow> Inl (ValueError (''Calculation error: '' @ exn_msg x))
      | Inr r \<Rightarrow> Inr r)"
  by (simp add: calculate_def split: prod.splits sum.splits)

lemma calculate_snd:
  "snd (calculate ev tk1 tk2 start_opt end_opt calls) =
     snd (calculate_try ev tk1 tk2 start_opt end_opt calls)"
  by (simp add: calculate_def split: prod.splits sum.splits)

lemmas eval_defs =
  calculate_def calculate_try_def default_end_def default_start_def
  min_ordinal_def max_ordinal_def fetch_stock_data_def fetch_try_def empty_frame_def
  getitem_def concat_axis1_def union_index_def reindex_def returns_of_def pct_change_def pct_change_col_def shift1_def
  dropna_def col1_def col2_def cell_def fsub_def statistics_def corr_def cov_def np_cov_def
  np_corrcoef_def fdot_def demean_def fmean_def fsum_def round_half_even_def inf_of_sign_def
  ValueError_def Let_def

subsection \<open>The failures of the fetcher\<close>

text \<open>
  Claim C6, as the code has it. \<open>fetch_stock_data\<close> has three outcomes. When the source
  raises, it raises a \<open>ValueError\<close> with the message "Error fetching data for
  \{ticker\}: " followed by the message of the source's exception. When the source
  returns no rows, no columns or no column "Adj Close", it raises a \<open>ValueError\<close> with
  the message "Error fetching data for \{ticker\}: No data found for ticker \{ticker\}".
  Otherwise it returns the column "Adj Close" with the frame's index. The two failures
  have the same class, \<open>ValueError\<close>: they are not two kinds of error.
\<close>

theorem fetch_stock_data_outcomes:
  "fst (fetch_stock_data ev ticker s e calls) =
     (case download ev ticker s e of
        Inl x \<Rightarrow>
          Inl (Exn ''ValueError'' (''Error fetching data for '' @ ticker @ '': '' @ exn_msg x))
      | Inr data \<Rightarrow>
          if f_index data = [] \<or> f_columns data = []
             \<or> ''Adj Close'' \<notin> fst ` set (f_columns data)
          then Inl (Exn ''ValueError''
                     (''Error fetching data for '' @ ticker @ '': ''
                        @ ''No data found for ticker '' @ ticker))
          else Inr (zip (f_index data) (the (map_of (f_columns data) ''Adj Close''))))"
proof (cases "download ev ticker s e")
  case (Inl x)
  then show ?thesis
    by (simp add: fetch_stock_data_cases ValueError_def)
next
  case (Inr data)
  show ?thesis
  proof (cases "''Adj Close'' \<in> fst ` set (f_columns data)")
    case True
    then obtain vs where "map_of (f_columns data) ''Adj Close'' = Some vs"
      by (metis domD dom_map_of_conv_image_fst)
    with Inr True show ?thesis
      by (simp add: fetch_stock_data_cases ValueError_def empty_frame_def getitem_def)
  next
    case False
    with Inr show ?thesis
      by (simp add: fetch_stock_data_cases ValueError_def empty_frame_def)
  qed
qed

text \<open>The outcomes at a source with four rows and at a source that raises.\<close>

theorem fetch_stock_data_outcomes_witness:
  "fst (fetch_stock_data env_ok ''AAA'' (Date 738000) (Date 738100) [])
     = Inr [(738991, Num 1), (738992, Num 1), (738993, Num 2), (738994, Num 6)]
   \<and> fst (fetch_stock_data env_raises ''AAA'' (Date 738000) (Date 738100) [])
     = Inl (Exn ''ValueError'' ''Error fetching data for AAA: No data found for ticker AAA'')"
  using fetch_stock_data_outcomes [of env_ok "''AAA''" "Date 738000" "Date 738100" "[]"]
    fetch_stock_data_outcomes [of env_raises "''AAA''" "Date 738000" "Date 738100" "[]"]
  by (simp add: env_ok_def env_raises_def frame_ok_def)

text \<open>
  Against claim C6 as written (two distinct error kinds): a source without rows and a
  source that raises \<open>ConnectionError("No data found for ticker AAA")\<close> make
  \<open>fetch_stock_data\<close> raise the same exception, class and message.
\<close>

theorem fetch_kinds_counterexample:
  "fst (fetch_stock_data env_no_rows ''AAA'' (Date 738000) (Date 738100) [])
     = Inl (Exn ''ValueError'' ''Error fetching data for AAA: No data found for ticker AAA'')
   \<and> fst (fetch_stock_data env_raises ''AAA'' (Date 738000) (Date 738100) [])
     = Inl (Exn ''ValueError'' ''Error fetching data for AAA: No data found for ticker AAA'')"
  by (simp add: fetch_stock_data_def fetch_try_def ValueError_def env_no_rows_def env_raises_def
        empty_frame_def)

text \<open>
  Claim C10. Every failure of \<open>fetch_stock_data\<close> is a \<open>ValueError\<close> whose message begins
  "Error fetching data for \{ticker\}: ". The "No data found" error raised inside the
  \<open>try\<close> is caught by the function's own handler and wrapped, so that it leaves the
  function with the same class as a failure of the source; through \<open>calculate\<close> it reaches
  the caller wrapped a second time, behind "Calculation error: ".
\<close>

theorem fetch_failure_one_kind:
  "(\<forall>x. fst (fetch_stock_data ev ticker s e calls) = Inl x \<longrightarrow>
        exn_kind x = ''ValueError''
        \<and> (\<exists>m. exn_msg x = ''Error fetching data for '' @ ticker @ '': '' @ m))
   \<and> (\<forall>data. download ev ticker s e = Inr data
          \<and> (empty_frame data \<or> ''Adj Close'' \<notin> fst ` set (f_columns data)) \<longrightarrow>
        fst (fetch_stock_data ev ticker s e calls)
          = Inl (Exn ''ValueError''
                  (''Error fetching data for '' @ ticker @ '': ''
                     @ ''No data found for ticker '' @ ticker))
        \<and> (default_start start_opt (default_end ev end_opt) = Inr s
             \<and> default_end ev end_opt = e \<longrightarrow>
           fst (calculate ev ticker tk2 start_opt end_opt calls)
             = Inl (Exn ''ValueError''
                     (''Calculation error: '' @ ''Error fetching data for '' @ ticker @ '': ''
                        @ ''No data found for ticker '' @ ticker))))
   \<and> (\<forall>x. download ev ticker s e = Inl x \<longrightarrow>
        fst (fetch_stock_data ev ticker s e calls)
          = Inl (Exn ''ValueError'' (''Error fetching data for '' @ ticker @ '': '' @ exn_msg x)))"
proof (intro conjI allI impI)
  fix x assume "fst (fetch_stock_data ev ticker s e calls) = Inl x"
  then show "exn_kind x = ''ValueError''"
    by (auto simp: fetch_stock_data_cases ValueError_def split: sum.splits if_splits)
next
  fix x assume "fst (fetch_stock_data ev ticker s e calls) = Inl x"
  then show "\<exists>m. exn_msg x = ''Error fetching data for '' @ ticker @ '': '' @ m"
    by (auto simp: fetch_stock_data_cases ValueError_def split: sum.splits if_splits)
next
  fix data
  assume a: "download ev ticker s e = Inr data
    \<and> (empty_frame data \<or> ''Adj Close'' \<notin> fst ` set (f_columns data))"
  then show f: "fst (fetch_stock_data ev ticker s e calls)
          = Inl (Exn ''ValueError''
                  (''Error fetching data for '' @ ticker @ '': ''
                     @ ''No data found for ticker '' @ ticker))"
    by (auto simp: fetch_stock_data_cases ValueError_def)
  assume d: "default_start start_opt (default_end ev end_opt) = Inr s
             \<and> default_end ev end_opt = e"
  from a have "fst (fetch_stock_data ev ticker s e [])
          = Inl (Exn ''ValueError''
                  (''Error fetching data for '' @ ticker @ '': ''
                     @ ''No data found for ticker '' @ ticker))"
    by (auto simp: fetch_stock_data_cases ValueError_def)
  moreover from d have "default_end ev end_opt = e" and "default_start start_opt e = Inr s"
    by auto
  ultimately show "fst (calculate ev ticker tk2 start_opt end_opt calls)
             = Inl (Exn ''ValueError''
                     (''Calculation error: '' @ ''Error fetching data for '' @ ticker @ '': ''
                        @ ''No data found for ticker '' @ ticker))"
    by (simp add: calculate_fst calculate_try_pipeline pipeline_def ValueError_def)
next
  fix x assume "download ev ticker s e = Inl x"
  then show "fst (fetch_stock_data ev ticker s e calls)
          = Inl (Exn ''ValueError'' (''Error fetching data for '' @ ticker @ '': '' @ exn_msg x))"
    by (simp add: fetch_stock_data_cases ValueError_def)
qed

text \<open>The no-data failure at the fetcher and at \<open>calculate\<close>, for a source without rows.\<close>

theorem fetch_failure_one_kind_witness:
  "fst (fetch_stock_data env_no_rows ''AAA'' (DateTime 738635 52200000000) (DateTime 739000 52200000000) [])
     = Inl (Exn ''ValueError'' ''Error fetching data for AAA: No data found for ticker AAA'')
   \<and> fst (calculate env_no_rows ''AAA'' ''BBB'' None None [])
     = Inl (Exn ''ValueError''
             ''Calculation error: Error fetching data for AAA: No data found for ticker AAA'')"
  using fetch_failure_one_kind [of env_no_rows "''AAA''" "DateTime 738635 52200000000"
      "DateTime 739000 52200000000" "[]" None None "''BBB''"]
  by (simp add: env_no_rows_def empty_frame_def default_start_def default_end_def
        min_ordinal_def max_ordinal_def)

subsection \<open>The handler of calculate and the dates\<close>

text \<open>
  Claim C2. Whatever the body of the \<open>try\<close> of \<open>calculate\<close> raises, \<open>calculate\<close> raises one
  kind of error: a \<open>ValueError\<close> whose message is "Calculation error: " followed by the
  message of the original exception. This holds for the exceptions of the fetcher, for
  the first ticker and for the second, as for all others; and \<open>calculate\<close> returns a
  result only when the body returned it: a failure carries no result.
\<close>

theorem calculate_one_error_kind:
  "(\<forall>x. fst (calculate_try ev tk1 tk2 start_opt end_opt calls) = Inl x \<longrightarrow>
        fst (calculate ev tk1 tk2 start_opt end_opt calls)
          = Inl (Exn ''ValueError'' (''Calculation error: '' @ exn_msg x)))
   \<and> (\<forall>r. fst (calculate_try ev tk1 tk2 start_opt end_opt calls) = Inr r \<longrightarrow>
        fst (calculate ev tk1 tk2 start_opt end_opt calls) = Inr r)
   \<and> (\<forall>x. fst (calculate ev tk1 tk2 start_opt end_opt calls) = Inl x \<longrightarrow>
        exn_kind x = ''ValueError'' \<and> (\<exists>m. exn_msg x = ''Calculation error: '' @ m))
   \<and> (\<forall>s x. default_start start_opt (default_end ev end_opt) = Inr s
          \<and> download ev tk1 s (default_end ev end_opt) = Inl x \<longrightarrow>
        fst (calculate ev tk1 tk2 start_opt end_opt calls)
          = Inl (Exn ''ValueError''
                  (''Calculation error: '' @ ''Error fetching data for '' @ tk1 @ '': ''
                     @ exn_msg x)))
   \<and> (\<forall>s s1 x. default_start start_opt (default_end ev end_opt) = Inr s
          \<and> fst (fetch_stock_data ev tk1 s (default_end ev end_opt) calls) = Inr s1
          \<and> download ev tk2 s (default_end ev end_opt) = Inl x \<longrightarrow>
        fst (calculate ev tk1 tk2 start_opt end_opt calls)
          = Inl (Exn ''ValueError''
                  (''Calculation error: '' @ ''Error fetching data for '' @ tk2 @ '': ''
                     @ exn_msg x)))"
proof (intro conjI allI impI)
  fix x assume "fst (calculate_try ev tk1 tk2 start_opt end_opt calls) = Inl x"
  then show "fst (calculate ev tk1 tk2 start_opt end_opt calls)
          = Inl (Exn ''ValueError'' (''Calculation error: '' @ exn_msg x))"
    by (simp add: calculate_fst ValueError_def)
next
  fix r assume "fst (calculate_try ev tk1 tk2 start_opt end_opt calls) = Inr r"
  then show "fst (calculate ev tk1 tk2 start_opt end_opt calls) = Inr r"
    by (simp add: calculate_fst)
next
  fix x assume "fst (calculate ev tk1 tk2 start_opt end_opt calls) = Inl x"
  then show "exn_kind x = ''ValueError''"
    by (auto simp: calculate_fst ValueError_def split: sum.splits)
next
  fix x assume "fst (calculate ev tk1 tk2 start_opt end_opt calls) = Inl x"
  then show "\<exists>m. exn_msg x = ''Calculation error: '' @ m"
    by (auto simp: calculate_fst ValueError_def split: sum.splits)
next
  fix s x
  assume a: "default_start start_opt (default_end ev end_opt) = Inr s
          \<and> download ev tk1 s (default_end ev end_opt) = Inl x"
  then have "fst (fetch_stock_data ev tk1 s (default_end ev end_opt) [])
      = Inl (ValueError (''Error fetching data for '' @ tk1 @ '': '' @ exn_msg x))"
    by (simp add: fetch_stock_data_cases)
  with a show "fst (calculate ev tk1 tk2 start_opt end_opt calls)
          = Inl (Exn ''ValueError''
                  (''Calculation error: '' @ ''Error fetching data for '' @ tk1 @ '': ''
                     @ exn_msg x))"
    by (simp add: calculate_fst calculate_try_pipeline pipeline_def ValueError_def)
next
  fix s s1 x
  assume a: "default_start start_opt (default_end ev end_opt) = Inr s
          \<and> fst (fetch_stock_data ev tk1 s (default_end ev end_opt) calls) = Inr s1
          \<and> download ev tk2 s (default_end ev end_opt) = Inl x"
  then have "fst (fetch_stock_data ev tk2 s (default_end ev end_opt) [])
      = Inl (ValueError (''Error fetching data for '' @ tk2 @ '': '' @ exn_msg x))"
    by (simp add: fetch_stock_data_cases)
  moreover from a have "fst (fetch_stock_data ev tk1 s (default_end ev end_opt) []) = Inr s1"
    by (simp add: fetch_stock_data_cases)
  ultimately show "fst (calculate ev tk1 tk2 start_opt end_opt calls)
          = Inl (Exn ''ValueError''
                  (''Calculation error: '' @ ''Error fetching data for '' @ tk2 @ '': ''
                     @ exn_msg x))"
    using a by (simp add: calculate_fst calculate_try_pipeline pipeline_def ValueError_def)
qed

text \<open>
  Three failures of different origin, all of the one kind: the source raises for the first
  ticker, the source raises for the second ticker, the default start date is before
  year 1.
\<close>

theorem calculate_one_error_kind_witness:
  "fst (calculate env_raises ''AAA'' ''BBB'' None None [])
     = Inl (Exn ''ValueError''
             ''Calculation error: Error fetching data for AAA: No data found for ticker AAA'')
   \<and> fst (calculate env_second_raises ''AAA'' ''BBB'' None None [])
     = Inl (Exn ''ValueError''
             ''Calculation error: Error fetching data for BBB: timed out'')
   \<and> fst (calculate env_ok ''AAA'' ''BBB'' None (Some (Date 1)) [])
     = Inl (Exn ''ValueError'' ''Calculation error: date value out of range'')"
  using calculate_one_error_kind [of env_raises "''AAA''" "''BBB''" None None "[]"]
    calculate_one_error_kind [of env_second_raises "''AAA''" "''BBB''" None None "[]"]
    calculate_one_error_kind [of env_ok "''AAA''" "''BBB''" None "Some (Date 1)" "[]"]
  by (simp add: env_raises_def env_second_raises_def env_ok_def frame_ok_def eval_defs)

text \<open>
  Claim C3. Let \<open>e\<close> be the end given, or the current moment when none is given, and \<open>s\<close>
  the start given, or \<open>e\<close> minus 365 days when none is given (time of day kept). Then the
  fetcher is called with \<open>s\<close> and \<open>e\<close> themselves, for the first ticker and then for the
  second, and in every result \<open>start_date\<close> and \<open>end_date\<close> are the calendar dates of \<open>s\<close> and
  \<open>e\<close>.
\<close>

theorem calculate_dates:
  assumes "e = (case end_opt of Some x \<Rightarrow> x | None \<Rightarrow> now ev)"
    and "(case start_opt of Some x \<Rightarrow> Inr x | None \<Rightarrow> sub_days e 365) = Inr s"
  shows "(start_opt = None \<longrightarrow>
            to_date s = to_date e - 365
            \<and> (\<forall>d t. e = DateTime d t \<longrightarrow> s = DateTime (d - 365) t)
            \<and> (\<forall>d. e = Date d \<longrightarrow> s = Date (d - 365)))
         \<and> (snd (calculate ev tk1 tk2 start_opt end_opt calls) = calls @ [(tk1, s, e)]
              \<or> snd (calculate ev tk1 tk2 start_opt end_opt calls)
                   = calls @ [(tk1, s, e), (tk2, s, e)])
         \<and> (\<forall>r. fst (calculate ev tk1 tk2 start_opt end_opt calls) = Inr r \<longrightarrow>
               start_date r = to_date s \<and> end_date r = to_date e
               \<and> snd (calculate ev tk1 tk2 start_opt end_opt calls)
                    = calls @ [(tk1, s, e), (tk2, s, e)])"
proof -
  have e: "default_end ev end_opt = e"
    using assms(1) by (simp add: default_end_def)
  have s: "default_start start_opt e = Inr s"
    using assms(2) by (simp add: default_start_def)
  have p1: "start_opt = None \<longrightarrow>
            to_date s = to_date e - 365
            \<and> (\<forall>d t. e = DateTime d t \<longrightarrow> s = DateTime (d - 365) t)
            \<and> (\<forall>d. e = Date d \<longrightarrow> s = Date (d - 365))"
    using assms(2) by (cases e) (auto split: if_splits)
  have p2: "snd (calculate ev tk1 tk2 start_opt end_opt calls) = calls @ [(tk1, s, e)]
              \<or> snd (calculate ev tk1 tk2 start_opt end_opt calls)
                   = calls @ [(tk1, s, e), (tk2, s, e)]"
    using e s by (simp add: calculate_snd calculate_try_calls split: sum.splits)
  have p3: "start_date r = to_date s \<and> end_date r = to_date e
               \<and> snd (calculate ev tk1 tk2 start_opt end_opt calls)
                    = calls @ [(tk1, s, e), (tk2, s, e)]"
    if r: "fst (calculate ev tk1 tk2 start_opt end_opt calls) = Inr r" for r
  proof -
    from r have t: "fst (calculate_try ev tk1 tk2 start_opt end_opt calls) = Inr r"
      by (simp add: calculate_fst split: sum.splits)
    then obtain combined where
      p: "pipeline ev tk1 tk2 start_opt end_opt = Inr (s, e, combined)" and
      st: "statistics tk1 tk2 (to_date s) (to_date e) combined
             (returns_of (pad ev) combined) = Inr r"
      using e s
      by (auto simp: calculate_try_pipeline pipeline_def split: sum.splits)
    from st have "start_date r = to_date s \<and> end_date r = to_date e"
      by (auto simp: statistics_def Let_def split: if_splits)
    moreover from p e s
    have "snd (calculate ev tk1 tk2 start_opt end_opt calls)
            = calls @ [(tk1, s, e), (tk2, s, e)]"
      by (auto simp: calculate_snd calculate_try_calls pipeline_def split: sum.splits)
    ultimately show ?thesis by simp
  qed
  from p1 p2 p3 show ?thesis by blast
qed

text \<open>
  No date given at 14:30 of day 739000: both downloads are asked for the moments 14:30 of
  day 738635 and 14:30 of day 739000, and the result carries the days 738635 and 739000.
\<close>

theorem calculate_dates_witness:
  "snd (calculate env_ok ''AAA'' ''BBB'' None None [])
     = [(''AAA'', DateTime 738635 52200000000, DateTime 739000 52200000000),
        (''BBB'', DateTime 738635 52200000000, DateTime 739000 52200000000)]
   \<and> (\<exists>r. fst (calculate env_ok ''AAA'' ''BBB'' None None []) = Inr r
          \<and> start_date r = 738635 \<and> end_date r = 739000)"
  using calculate_dates [where e = "DateTime 739000 52200000000" and end_opt = None
      and ev = env_ok and start_opt = None and s = "DateTime 738635 52200000000"
      and ?tk1.0 = "''AAA''" and ?tk2.0 = "''BBB''" and calls = "[]"]
  by (simp add: env_ok_def frame_ok_def eval_defs)

subsection \<open>Returns: the first row and the rows kept\<close>

lemma isna_iff: "isna x \<longleftrightarrow> x = NaN"
  by (cases x) simp_all

lemma fadd_NaN_right: "fadd x NaN = NaN"
  by (cases x) simp_all

lemma fmul_NaN_right: "fmul x NaN = NaN"
  by (cases x) simp_all

lemma fdiv_NaN_right: "fdiv x NaN = NaN"
  by (cases x) simp_all

lemma fsub_NaN_left: "fsub NaN y = NaN"
  by (simp add: fsub_def)

lemma length_ffill: "length (ffill p xs) = length xs"
  by (induction xs arbitrary: p) (simp_all add: Let_def)



lemma pct_change_col_Cons:
  "\<exists>rest. pct_change_col pd (x # xs) = NaN # rest \<and> length rest = length xs"
proof -
  obtain y ys where d: "(if pd then ffill NaN (x # xs) else x # xs) = y # ys" and l: "length ys = length xs"
    by (cases pd) (simp_all add: Let_def length_ffill)
  have "pct_change_col pd (x # xs)
      = NaN # map (\<lambda>(x, p). fsub (fdiv x p) (Num 1)) (zip ys (butlast (y # ys)))"
    unfolding pct_change_col_def Let_def d
    by (simp add: shift1_def fdiv_NaN_right fsub_NaN_left del: butlast.simps)
  moreover have "length (map (\<lambda>(x, p). fsub (fdiv x p) (Num 1)) (zip ys (butlast (y # ys)))) = length xs"
    using l by (simp del: butlast.simps)
  ultimately show ?thesis by blast
qed





lemma pct_change_first_row:
  "\<exists>rest. pct_change pd ((d, a, b) # t) = (d, NaN, NaN) # rest \<and> length rest = length t"
proof -
  obtain r1 where r1: "pct_change_col pd (a # map snd (col1 t)) = NaN # r1" "length r1 = length t"
    using pct_change_col_Cons [of pd a "map snd (col1 t)"] by (auto simp: col1_def)
  obtain r2 where r2: "pct_change_col pd (b # map snd (col2 t)) = NaN # r2" "length r2 = length t"
    using pct_change_col_Cons [of pd b "map snd (col2 t)"] by (auto simp: col2_def)
  have "pct_change pd ((d, a, b) # t) = (d, NaN, NaN) # zip (map fst t) (zip r1 r2)"
    using r1(1) r2(1) by (simp add: pct_change_def col1_def col2_def)
  moreover have "length (zip (map fst t) (zip r1 r2)) = length t"
    using r1(2) r2(2) by simp
  ultimately show ?thesis by blast
qed

lemma length_returns_of: "t \<noteq> [] \<Longrightarrow> length (returns_of pd t) < length t"
proof -
  assume "t \<noteq> []"
  then obtain d a b t' where t: "t = (d, a, b) # t'"
    by (cases t) auto
  obtain rest where r: "pct_change pd t = (d, NaN, NaN) # rest" "length rest = length t'"
    using pct_change_first_row [of pd d a b t'] t by auto
  have "length (returns_of pd t) = length (dropna rest)"
    using r(1) by (simp add: returns_of_def dropna_def)
  also have "\<dots> \<le> length rest"
    by (simp add: dropna_def)
  finally show ?thesis using r(2) t by simp
qed




subsection \<open>Alignment: the index and the cells of the combined frame\<close>


















subsection \<open>Results and failures of the steps\<close>

lemma pipeline_Inl:
  assumes "pipeline ev tk1 tk2 start_opt end_opt = Inl x"
  shows "x = Exn ''OverflowError'' ''date value out of range''
       \<or> (\<exists>t m. x = Exn ''ValueError'' (''Error fetching data for '' @ t @ '': '' @ m))
       \<or> x = Exn ''ValueError'' ''cannot reindex on an axis with duplicate labels''"
proof -
  let ?e = "default_end ev end_opt"
  show ?thesis
  proof (cases "default_start start_opt ?e")
    case (Inl y)
    with assms have "x = y" by (simp add: pipeline_def)
    moreover from Inl have "y = Exn ''OverflowError'' ''date value out of range''"
      by (cases ?e) (auto simp: default_start_def split: option.splits if_splits)
    ultimately show ?thesis by simp
  next
    case s: (Inr s)
    show ?thesis
    proof (cases "fst (fetch_stock_data ev tk1 s ?e [])")
      case (Inl y)
      with assms s have "x = y" by (simp add: pipeline_def)
      moreover from Inl have "\<exists>m. y = Exn ''ValueError'' (''Error fetching data for '' @ tk1 @ '': '' @ m)"
        by (auto simp: fetch_stock_data_cases ValueError_def split: sum.splits if_splits)
      ultimately show ?thesis by blast
    next
      case s1: (Inr s1)
      show ?thesis
      proof (cases "fst (fetch_stock_data ev tk2 s ?e [])")
        case (Inl y)
        with assms s s1 have "x = y" by (simp add: pipeline_def)
        moreover from Inl have "\<exists>m. y = Exn ''ValueError'' (''Error fetching data for '' @ tk2 @ '': '' @ m)"
          by (auto simp: fetch_stock_data_cases ValueError_def split: sum.splits if_splits)
        ultimately show ?thesis by blast
      next
        case s2: (Inr s2)
        with assms s s1 have "concat_axis1 s1 s2 = Inl x"
          by (simp add: pipeline_def split: sum.splits)
        then have "x = Exn ''ValueError'' ''cannot reindex on an axis with duplicate labels''"
          by (auto simp: concat_axis1_def reindex_def ValueError_def Let_def
                split: sum.splits if_splits)
        then show ?thesis by simp
      qed
    qed
  qed
qed

lemma statistics_cases:
  "statistics tk1 tk2 sd ed combined returns =
     (if length returns < 2
      then Inl (Exn ''ValueError'' ''Insufficient data points for correlation calculation'')
      else if tk1 = tk2
      then Inl (Exn ''ValueError'' ''The truth value of a DataFrame is ambiguous. Use a.empty, a.bool(), a.item(), a.any() or a.all().'')
      else if isna (corr (col1 returns) (col2 returns)) \<or> isna (cov (col1 returns) (col2 returns))
      then Inl (Exn ''ValueError'' ''Calculation resulted in NaN values'')
      else Inr \<lparr> correlation = py_round (corr (col1 returns) (col2 returns)) 4,
                 covariance = py_round (cov (col1 returns) (col2 returns)) 6,
                 start_date = sd, end_date = ed, ticker1 = tk1, ticker2 = tk2,
                 data_points = length returns,
                 first_date = fst (hd returns),
                 last_date = fst (last returns),
                 trading_days = length combined \<rparr>)"
  by (simp add: statistics_def ValueError_def Let_def)

lemma statistics_Inr:
  assumes "statistics tk1 tk2 sd ed combined returns = Inr r"
  shows "2 \<le> length returns"
    and "\<not> isna (corr (col1 returns) (col2 returns))"
    and "\<not> isna (cov (col1 returns) (col2 returns))"
    and "r = \<lparr> correlation = py_round (corr (col1 returns) (col2 returns)) 4,
                 covariance = py_round (cov (col1 returns) (col2 returns)) 6,
                 start_date = sd, end_date = ed, ticker1 = tk1, ticker2 = tk2,
                 data_points = length returns,
                 first_date = fst (hd returns),
                 last_date = fst (last returns),
                 trading_days = length combined \<rparr>"
  using assms by (auto simp: statistics_cases split: if_splits)

lemma calculate_Inr:
  assumes "fst (calculate ev tk1 tk2 start_opt end_opt calls) = Inr r"
  shows "\<exists>s e combined.
           pipeline ev tk1 tk2 start_opt end_opt = Inr (s, e, combined)
           \<and> statistics tk1 tk2 (to_date s) (to_date e) combined
                (returns_of (pad ev) combined) = Inr r"
proof -
  from assms have "fst (calculate_try ev tk1 tk2 start_opt end_opt calls) = Inr r"
    by (simp add: calculate_fst split: sum.splits)
  then show ?thesis
    by (auto simp: calculate_try_pipeline split: sum.splits)
qed


subsection \<open>The aligned returns\<close>











text \<open>
  Claim C7. In every result, \<open>trading_days\<close> is the number of rows of the combined frame
  and \<open>data_points\<close> the number of rows of the cleaned returns, and \<open>data_points\<close> is
  \<open>trading_days - k\<close> for some \<open>k\<close> of at least 1: the first row of \<open>pct_change\<close> is NaN in
  both columns and is always dropped.
\<close>

theorem data_points_below_trading_days:
  assumes "fst (calculate ev tk1 tk2 start_opt end_opt calls) = Inr r"
  shows "\<exists>s e combined.
           pipeline ev tk1 tk2 start_opt end_opt = Inr (s, e, combined)
           \<and> trading_days r = length combined
           \<and> data_points r = length (returns_of (pad ev) combined)
           \<and> (\<exists>d rest. pct_change (pad ev) combined = (d, NaN, NaN) # rest)
           \<and> (\<exists>k. 1 \<le> k \<and> k \<le> trading_days r
                  \<and> int (data_points r) = int (trading_days r) - int k)"
proof -
  from assms have t: "fst (calculate_try ev tk1 tk2 start_opt end_opt calls) = Inr r"
    by (simp add: calculate_fst split: sum.splits)
  then obtain s e combined where
    p: "pipeline ev tk1 tk2 start_opt end_opt = Inr (s, e, combined)" and
    st: "statistics tk1 tk2 (to_date s) (to_date e) combined
           (returns_of (pad ev) combined) = Inr r"
    by (auto simp: calculate_try_pipeline split: sum.splits)
  from st have f: "trading_days r = length combined"
    "data_points r = length (returns_of (pad ev) combined)"
    and n: "2 \<le> length (returns_of (pad ev) combined)"
    by (auto simp: statistics_def Let_def split: if_splits)
  have ne: "combined \<noteq> []"
  proof
    assume "combined = []"
    then have "returns_of (pad ev) combined = []"
      by (simp add: returns_of_def dropna_def pct_change_def)
    with n show False by simp
  qed
  then obtain d a b t' where c: "combined = (d, a, b) # t'"
    by (cases combined) auto
  then have fr: "\<exists>d rest. pct_change (pad ev) combined = (d, NaN, NaN) # rest"
    using pct_change_first_row [of "pad ev" d a b t'] by blast
  have lt: "data_points r < trading_days r"
    using length_returns_of [OF ne, of "pad ev"] f by simp
  define k where "k = trading_days r - data_points r"
  with lt have "1 \<le> k \<and> k \<le> trading_days r
      \<and> int (data_points r) = int (trading_days r) - int k"
    by simp
  with p f fr show ?thesis by blast
qed

text \<open>
  With four common trading days three returns remain (\<open>k = 1\<close>); with six days of which
  one is missing for a ticker, three remain (\<open>k = 3\<close>).
\<close>

theorem data_points_below_trading_days_witness:
  "(\<exists>r. fst (calculate env_ok ''AAA'' ''BBB'' None None []) = Inr r
        \<and> data_points r = 3 \<and> trading_days r = 4)
   \<and> (\<exists>r. fst (calculate env_gap ''AAA'' ''BBB'' None None []) = Inr r
        \<and> data_points r = 3 \<and> trading_days r = 6)"
proof -
  have a: "fst (calculate env_ok ''AAA'' ''BBB'' None None []) =
      Inr \<lparr> correlation = Num 1, covariance = Num 1, start_date = 738635, end_date = 739000,
            ticker1 = ''AAA'', ticker2 = ''BBB'', data_points = 3,
            first_date = 738992, last_date = 738994, trading_days = 4 \<rparr>"
    by (simp add: env_ok_def frame_ok_def eval_defs)
  have b: "fst (calculate env_gap ''AAA'' ''BBB'' None None []) =
      Inr \<lparr> correlation = Num 1, covariance = Num 1, start_date = 738635, end_date = 739000,
            ticker1 = ''AAA'', ticker2 = ''BBB'', data_points = 3,
            first_date = 738992, last_date = 738996, trading_days = 6 \<rparr>"
    by (simp add: env_gap_def eval_defs)
  from data_points_below_trading_days [OF a] data_points_below_trading_days [OF b] a b
  show ?thesis by simp
qed

subsection \<open>The checks before the result\<close>

text \<open>
  Claim C4. \<open>calculate\<close> fails with the error of insufficient data (the \<open>ValueError\<close> with
  the message "Insufficient data points for correlation calculation", behind the prefix
  of the handler) if and only if the steps reach the combined frame and fewer than 2 rows
  of returns remain after \<open>dropna\<close>. With 2 rows or more, and two different tickers, it goes
  on to the statistics: it computes the correlation and the covariance of the cleaned
  returns and either fails for a NaN or returns the result made of them.
\<close>

theorem insufficient_data_iff:
  "(fst (calculate ev tk1 tk2 start_opt end_opt calls)
      = Inl (Exn ''ValueError''
              (''Calculation error: '' @ ''Insufficient data points for correlation calculation''))
    \<longleftrightarrow> (\<exists>s e combined. pipeline ev tk1 tk2 start_opt end_opt = Inr (s, e, combined)
           \<and> length (returns_of (pad ev) combined) < 2))
   \<and> (\<forall>s e combined.
         pipeline ev tk1 tk2 start_opt end_opt = Inr (s, e, combined)
         \<and> 2 \<le> length (returns_of (pad ev) combined) \<and> tk1 \<noteq> tk2 \<longrightarrow>
         fst (calculate ev tk1 tk2 start_opt end_opt calls) =
           (let returns = returns_of (pad ev) combined;
                c = corr (col1 returns) (col2 returns);
                v = cov (col1 returns) (col2 returns)
            in if isna c \<or> isna v
               then Inl (Exn ''ValueError''
                          (''Calculation error: '' @ ''Calculation resulted in NaN values''))
               else Inr \<lparr> correlation = py_round c 4, covariance = py_round v 6,
                          start_date = to_date s, end_date = to_date e,
                          ticker1 = tk1, ticker2 = tk2,
                          data_points = length returns,
                          first_date = fst (hd returns),
                          last_date = fst (last returns),
                          trading_days = length combined \<rparr>))"
proof (intro conjI allI impI iffI)
  assume a: "fst (calculate ev tk1 tk2 start_opt end_opt calls)
      = Inl (Exn ''ValueError''
              (''Calculation error: '' @ ''Insufficient data points for correlation calculation''))"
  then obtain x where x: "fst (calculate_try ev tk1 tk2 start_opt end_opt calls) = Inl x"
    and m: "exn_msg x = ''Insufficient data points for correlation calculation''"
    by (auto simp: calculate_fst ValueError_def split: sum.splits)
  show "\<exists>s e combined. pipeline ev tk1 tk2 start_opt end_opt = Inr (s, e, combined)
           \<and> length (returns_of (pad ev) combined) < 2"
  proof (cases "pipeline ev tk1 tk2 start_opt end_opt")
    case (Inl y)
    with x have "y = x" by (simp add: calculate_try_pipeline)
    with pipeline_Inl [OF Inl] m show ?thesis by auto
  next
    case (Inr p)
    obtain s e combined where p: "p = (s, e, combined)" by (cases p) auto
    with Inr x have "statistics tk1 tk2 (to_date s) (to_date e) combined
           (returns_of (pad ev) combined) = Inl x"
      by (simp add: calculate_try_pipeline)
    with m have "length (returns_of (pad ev) combined) < 2"
      by (auto simp: statistics_cases split: if_splits)
    with Inr p show ?thesis by blast
  qed
next
  assume "\<exists>s e combined. pipeline ev tk1 tk2 start_opt end_opt = Inr (s, e, combined)
           \<and> length (returns_of (pad ev) combined) < 2"
  then show "fst (calculate ev tk1 tk2 start_opt end_opt calls)
      = Inl (Exn ''ValueError''
              (''Calculation error: '' @ ''Insufficient data points for correlation calculation''))"
    by (auto simp: calculate_fst calculate_try_pipeline statistics_cases ValueError_def)
next
  fix s e combined
  assume "pipeline ev tk1 tk2 start_opt end_opt = Inr (s, e, combined)
         \<and> 2 \<le> length (returns_of (pad ev) combined) \<and> tk1 \<noteq> tk2"
  then show "fst (calculate ev tk1 tk2 start_opt end_opt calls) =
           (let returns = returns_of (pad ev) combined;
                c = corr (col1 returns) (col2 returns);
                v = cov (col1 returns) (col2 returns)
            in if isna c \<or> isna v
               then Inl (Exn ''ValueError''
                          (''Calculation error: '' @ ''Calculation resulted in NaN values''))
               else Inr \<lparr> correlation = py_round c 4, covariance = py_round v 6,
                          start_date = to_date s, end_date = to_date e,
                          ticker1 = tk1, ticker2 = tk2,
                          data_points = length returns,
                          first_date = fst (hd returns),
                          last_date = fst (last returns),
                          trading_days = length combined \<rparr>)"
    by (simp add: calculate_fst calculate_try_pipeline statistics_cases ValueError_def Let_def)
qed

text \<open>
  Two trading days leave one row of returns and the error; four trading days leave three
  rows and a result.
\<close>

theorem insufficient_data_iff_witness:
  "fst (calculate env_short ''AAA'' ''BBB'' None None [])
     = Inl (Exn ''ValueError''
             ''Calculation error: Insufficient data points for correlation calculation'')
   \<and> pipeline env_short ''AAA'' ''BBB'' None None
     = Inr (DateTime 738635 52200000000, DateTime 739000 52200000000,
            [(738991, Num 1, Num 3), (738992, Num 2, Num 4)])
   \<and> returns_of False [(738991, Num 1, Num 3), (738992, Num 2, Num 4)]
     = [(738992, Num 1, Num (1 / 3))]
   \<and> length (returns_of (pad env_ok)
        [(738991, Num 1, Num 2), (738992, Num 1, Num 2), (738993, Num 2, Num 4),
         (738994, Num 6, Num 12)]) = 3
   \<and> fst (calculate env_ok ''AAA'' ''BBB'' None None [])
     = Inr \<lparr> correlation = Num 1, covariance = Num 1, start_date = 738635, end_date = 739000,
             ticker1 = ''AAA'', ticker2 = ''BBB'', data_points = 3,
             first_date = 738992, last_date = 738994, trading_days = 4 \<rparr>"
  using insufficient_data_iff [of env_short "''AAA''" "''BBB''" None None "[]"]
    insufficient_data_iff [of env_ok "''AAA''" "''BBB''" None None "[]"]
  by (simp add: env_short_def env_ok_def frame_ok_def pipeline_def eval_defs)

subsection \<open>Undefined statistics\<close>

lemma foldl_fadd_zero_or_NaN:
  assumes "\<forall>x \<in> set ps. x = Num 0 \<or> x = NaN" and "a = Num 0 \<or> a = NaN"
  shows "foldl fadd a ps = Num 0 \<or> foldl fadd a ps = NaN"
  using assms
proof (induction ps arbitrary: a)
  case Nil
  then show ?case by simp
next
  case (Cons x ps)
  from Cons.prems have "fadd a x = Num 0 \<or> fadd a x = NaN"
    by auto
  with Cons show ?case by simp
qed

lemma foldl_fadd_zeros: "foldl fadd (Num 0) (replicate n (Num 0)) = Num 0"
  by (induction n) simp_all

lemma demean_zero:
  assumes "\<forall>x \<in> set xs. x = Num 0" and "xs \<noteq> []"
  shows "demean xs = replicate (length xs) (Num 0)"
proof -
  let ?n = "length xs"
  from assms(1) have r: "xs = replicate ?n (Num 0)"
    by (simp add: replicate_length_same)
  have "fsum xs = Num 0"
    unfolding fsum_def by (subst r) (rule foldl_fadd_zeros)
  moreover from assms(2) have "real ?n \<noteq> 0" by simp
  ultimately have "fmean xs = Num 0"
    by (simp add: fmean_def)
  then have "demean xs = map (\<lambda>x. fsub x (Num 0)) xs"
    by (simp add: demean_def)
  also have "\<dots> = map (\<lambda>x. Num 0) xs"
    using assms(1) by (intro map_cong) (auto simp: fsub_def)
  also have "\<dots> = replicate ?n (Num 0)"
    by (simp add: map_replicate_const)
  finally show ?thesis .
qed

lemma fmul_zero_left: "fmul (Num 0) y = Num 0 \<or> fmul (Num 0) y = NaN"
  by (cases y) (simp_all add: inf_of_sign_def)

lemma fmul_zero_right: "fmul y (Num 0) = Num 0 \<or> fmul y (Num 0) = NaN"
  by (cases y) (simp_all add: inf_of_sign_def)

lemma fdot_zero_left:
  assumes "\<forall>x \<in> set xs. x = Num 0"
  shows "fdot xs ys = Num 0 \<or> fdot xs ys = NaN"
proof -
  have "\<forall>p \<in> set (map (\<lambda>(x, y). fmul x y) (zip xs ys)). p = Num 0 \<or> p = NaN"
  proof
    fix p assume "p \<in> set (map (\<lambda>(x, y). fmul x y) (zip xs ys))"
    then obtain x y where "(x, y) \<in> set (zip xs ys)" and p: "p = fmul x y" by auto
    then have "x \<in> set xs" by (auto dest: set_zip_leftD)
    with assms p show "p = Num 0 \<or> p = NaN"
      using fmul_zero_left [of y] by simp
  qed
  then show ?thesis
    unfolding fdot_def fsum_def by (rule foldl_fadd_zero_or_NaN) simp
qed

lemma fdot_zero_right:
  assumes "\<forall>y \<in> set ys. y = Num 0"
  shows "fdot xs ys = Num 0 \<or> fdot xs ys = NaN"
proof -
  have "\<forall>p \<in> set (map (\<lambda>(x, y). fmul x y) (zip xs ys)). p = Num 0 \<or> p = NaN"
  proof
    fix p assume "p \<in> set (map (\<lambda>(x, y). fmul x y) (zip xs ys))"
    then obtain x y where "(x, y) \<in> set (zip xs ys)" and p: "p = fmul x y" by auto
    then have "y \<in> set ys" by (auto dest: set_zip_rightD)
    with assms p show "p = Num 0 \<or> p = NaN"
      using fmul_zero_right [of x] by simp
  qed
  then show ?thesis
    unfolding fdot_def fsum_def by (rule foldl_fadd_zero_or_NaN) simp
qed

lemma fdiv_zero_or_NaN:
  assumes "c = Num 0 \<or> c = NaN"
  shows "fdiv c z = Num 0 \<or> fdiv c z = NaN"
  using assms by (cases z) (auto simp: inf_of_sign_def)

lemma fdiv_by_zero:
  assumes "c = Num 0 \<or> c = NaN"
  shows "fdiv c (Num 0) = NaN"
  using assms by (auto simp: inf_of_sign_def)

lemma np_cov_zero:
  assumes "\<forall>x \<in> set xs. x = Num 0" and "2 \<le> length xs"
  shows "np_cov xs xs = Num 0"
    and "np_cov xs ys = Num 0 \<or> np_cov xs ys = NaN"
    and "np_cov ys xs = Num 0 \<or> np_cov ys xs = NaN"
proof -
  from assms(2) have ne: "xs \<noteq> []" by auto
  have d: "demean xs = replicate (length xs) (Num 0)"
    using assms(1) ne by (rule demean_zero)
  then have z: "\<forall>x \<in> set (demean xs). x = Num 0" by simp
  have "fdot (replicate (length xs) (Num 0)) (replicate (length xs) (Num 0)) = Num 0"
    by (simp add: fdot_def fsum_def map_replicate_const foldl_fadd_zeros)
  with d have "fdot (demean xs) (demean xs) = Num 0"
    by simp
  moreover from assms(2) have n: "real (length xs) - 1 \<noteq> 0" by simp
  ultimately show "np_cov xs xs = Num 0"
    by (simp add: np_cov_def)
  from fdot_zero_left [OF z, of "demean ys"]
  show "np_cov xs ys = Num 0 \<or> np_cov xs ys = NaN"
    using n by (auto simp: np_cov_def)
  from fdot_zero_right [OF z, of "demean ys"]
  show "np_cov ys xs = Num 0 \<or> np_cov ys xs = NaN"
    unfolding np_cov_def by (rule fdiv_zero_or_NaN)
qed

lemma np_corrcoef_zero:
  assumes "\<forall>x \<in> set xs. x = Num 0" and "2 \<le> length xs"
  shows "np_corrcoef xs ys = NaN" and "np_corrcoef ys xs = NaN"
proof -
  note c = np_cov_zero [OF assms]
  have "fdiv (np_cov xs ys) (fsqrt (np_cov xs xs)) = NaN"
    using c(2) by (simp add: c(1) fdiv_by_zero)
  then show "np_corrcoef xs ys = NaN"
    by (simp add: np_corrcoef_def)
  have "fdiv (fdiv (np_cov ys xs) (fsqrt (np_cov ys ys))) (fsqrt (np_cov xs xs)) = NaN"
    using fdiv_zero_or_NaN [OF c(3)] by (simp add: c(1) fdiv_by_zero)
  then show "np_corrcoef ys xs = NaN"
    by (simp add: np_corrcoef_def)
qed

lemma py_round_isna: "isna (py_round x n) = isna x"
  by (cases x) simp_all

text \<open>
  Claim C5. When the correlation or the covariance of the cleaned returns is NaN,
  \<open>calculate\<close> fails with the \<open>ValueError\<close> "Calculation resulted in NaN values" (behind the
  prefix of the handler); no result has a NaN correlation or covariance. This can occur
  for a series without variance: a series whose returns are all 0 (a price that never
  moves) makes the correlation NaN, whichever side it is on, the division being 0 by 0.
\<close>

theorem nan_statistics_rejected:
  "(\<forall>s e combined.
       pipeline ev tk1 tk2 start_opt end_opt = Inr (s, e, combined)
       \<and> 2 \<le> length (returns_of (pad ev) combined) \<and> tk1 \<noteq> tk2
       \<and> (isna (corr (col1 (returns_of (pad ev) combined)) (col2 (returns_of (pad ev) combined)))
          \<or> isna (cov (col1 (returns_of (pad ev) combined)) (col2 (returns_of (pad ev) combined))))
       \<longrightarrow>
       fst (calculate ev tk1 tk2 start_opt end_opt calls)
         = Inl (Exn ''ValueError''
                 (''Calculation error: '' @ ''Calculation resulted in NaN values'')))
   \<and> (\<forall>r. fst (calculate ev tk1 tk2 start_opt end_opt calls) = Inr r \<longrightarrow>
         \<not> isna (correlation r) \<and> \<not> isna (covariance r))
   \<and> (\<forall>a b. 2 \<le> length a \<and> (\<forall>(d, v) \<in> set a. v = Num 0) \<longrightarrow>
         isna (corr a b) \<and> isna (corr b a))"
proof (intro conjI allI impI)
  fix s e combined
  assume "pipeline ev tk1 tk2 start_opt end_opt = Inr (s, e, combined)
       \<and> 2 \<le> length (returns_of (pad ev) combined) \<and> tk1 \<noteq> tk2
       \<and> (isna (corr (col1 (returns_of (pad ev) combined)) (col2 (returns_of (pad ev) combined)))
          \<or> isna (cov (col1 (returns_of (pad ev) combined)) (col2 (returns_of (pad ev) combined))))"
  then show "fst (calculate ev tk1 tk2 start_opt end_opt calls)
         = Inl (Exn ''ValueError''
                 (''Calculation error: '' @ ''Calculation resulted in NaN values''))"
    by (auto simp: calculate_fst calculate_try_pipeline statistics_cases ValueError_def)
next
  fix r assume r: "fst (calculate ev tk1 tk2 start_opt end_opt calls) = Inr r"
  from calculate_Inr [OF r] obtain s e combined where
    st: "statistics tk1 tk2 (to_date s) (to_date e) combined
           (returns_of (pad ev) combined) = Inr r"
    by blast
  note f = statistics_Inr [OF st]
  from f(4) have "correlation r = py_round (corr (col1 (returns_of (pad ev) combined))
      (col2 (returns_of (pad ev) combined))) 4" by simp
  with f(2) show "\<not> isna (correlation r)" by (simp add: py_round_isna)
  from f(4) have "covariance r = py_round (cov (col1 (returns_of (pad ev) combined))
      (col2 (returns_of (pad ev) combined))) 6" by simp
  with f(3) show "\<not> isna (covariance r)" by (simp add: py_round_isna)
next
  fix a b :: series
  assume h: "2 \<le> length a \<and> (\<forall>(d, v) \<in> set a. v = Num 0)"
  then have "\<forall>x \<in> set (map snd a). x = Num 0" and "2 \<le> length (map snd a)"
    by auto
  note n = np_corrcoef_zero [OF this]
  from n(1) show "isna (corr a b)" by (simp add: corr_def)
  from n(2) show "isna (corr b a)" by (simp add: corr_def)
qed

text \<open>
  A ticker whose price never moves has the returns 0, 0, 0: the correlation is NaN and
  \<open>calculate\<close> fails; the result for AAA and BBB has no NaN.
\<close>

theorem nan_statistics_rejected_witness:
  "fst (calculate env_flat ''FLAT'' ''AAA'' None None [])
     = Inl (Exn ''ValueError'' ''Calculation error: Calculation resulted in NaN values'')
   \<and> returns_of (pad env_flat)
        [(738991, Num 5, Num 1), (738992, Num 5, Num 1), (738993, Num 5, Num 2),
         (738994, Num 5, Num 6)]
     = [(738992, Num 0, Num 0), (738993, Num 0, Num 1), (738994, Num 0, Num 2)]
   \<and> isna (corr [(738992, Num 0), (738993, Num 0), (738994, Num 0)]
                [(738992, Num 0), (738993, Num 1), (738994, Num 2)])
   \<and> (\<exists>r. fst (calculate env_ok ''AAA'' ''BBB'' None None []) = Inr r
          \<and> \<not> isna (correlation r) \<and> \<not> isna (covariance r))"
  using nan_statistics_rejected [of env_flat "''FLAT''" "''AAA''" None None "[]"]
    nan_statistics_rejected [of env_ok "''AAA''" "''BBB''" None None "[]"]
  by (simp add: env_flat_def env_ok_def frame_ok_def pipeline_def eval_defs)

subsection \<open>The range of the correlation\<close>

lemma fclip_range: "fclip x \<noteq> NaN \<Longrightarrow> \<exists>c. fclip x = Num c \<and> - 1 \<le> c \<and> c \<le> 1"
  by (cases x) auto

lemma round_half_even_bounds:
  assumes "of_int a \<le> x" and "x \<le> of_int b"
  shows "a \<le> round_half_even x \<and> round_half_even x \<le> b"
proof -
  let ?f = "\<lfloor>x\<rfloor>"
  have lo: "a \<le> ?f" using assms(1) by (simp add: le_floor_iff)
  have hi: "?f \<le> b" using assms(2) by (simp add: floor_le_iff)
  have up: "?f + 1 \<le> b" if "x \<noteq> of_int ?f"
  proof -
    have "of_int ?f \<le> x" by (rule of_int_floor_le)
    with that have "of_int ?f < x" by (metis order_le_less)
    with assms(2) have "(of_int ?f :: real) < of_int b" by linarith
    then show ?thesis by simp
  qed
  show ?thesis
  proof (cases "x = of_int ?f")
    case True
    then have "x - of_int ?f < 1 / 2" by simp
    then have "round_half_even x = ?f" by (simp add: round_half_even_def Let_def)
    with lo hi show ?thesis by simp
  next
    case False
    have "round_half_even x = ?f \<or> round_half_even x = ?f + 1"
      by (simp add: round_half_even_def Let_def)
    with lo hi up [OF False] show ?thesis by auto
  qed
qed

lemma py_round_range:
  assumes "- 1 \<le> c" and "c \<le> 1"
  shows "\<exists>c'. py_round (Num c) n = Num c' \<and> - 1 \<le> c' \<and> c' \<le> 1"
proof -
  let ?p = "(10::real) ^ n"
  have p: "0 < ?p" by simp
  have "(- 1) * ?p \<le> c * ?p" and "c * ?p \<le> 1 * ?p"
    using assms p by (intro mult_right_mono; simp)+
  then have "of_int (- (10 ^ n)) \<le> c * ?p" and "c * ?p \<le> of_int (10 ^ n)"
    by simp_all
  from round_half_even_bounds [OF this]
  have b: "- (10 ^ n) \<le> round_half_even (c * ?p)" "round_half_even (c * ?p) \<le> 10 ^ n"
    by simp_all
  let ?r = "real_of_int (round_half_even (c * ?p))"
  from b have "real_of_int (- (10 ^ n)) \<le> ?r" "?r \<le> real_of_int (10 ^ n)"
    by (simp_all only: of_int_le_iff)
  then have "- ?p \<le> ?r" "?r \<le> ?p"
    by simp_all
  with p have "- 1 \<le> ?r / ?p" "?r / ?p \<le> 1"
    by (simp_all add: pos_le_divide_eq pos_divide_le_eq)
  then show ?thesis by simp
qed

text \<open>
  The correlation of every result is a number between -1 and 1: \<open>np.corrcoef\<close> clips it,
  \<open>calculate\<close> rejects a NaN, and \<open>round\<close> is monotone. Nothing of this kind is stated
  for the covariance, whose size in binary64 is outside this model.
\<close>

lemma correlation_in_range:
  assumes "fst (calculate ev tk1 tk2 start_opt end_opt calls) = Inr r"
  shows "\<exists>c. correlation r = Num c \<and> - 1 \<le> c \<and> c \<le> 1"
proof -
  from calculate_Inr [OF assms] obtain s e combined where
    st: "statistics tk1 tk2 (to_date s) (to_date e) combined
           (returns_of (pad ev) combined) = Inr r"
    by blast
  let ?R = "returns_of (pad ev) combined"
  note f = statistics_Inr [OF st]
  from f(2) have "fclip (fdiv (fdiv (np_cov (map snd (col1 ?R)) (map snd (col2 ?R)))
        (fsqrt (np_cov (map snd (col1 ?R)) (map snd (col1 ?R)))))
        (fsqrt (np_cov (map snd (col2 ?R)) (map snd (col2 ?R))))) \<noteq> NaN"
    by (simp add: corr_def np_corrcoef_def isna_iff)
  from fclip_range [OF this] obtain c0 where
    c0: "corr (col1 ?R) (col2 ?R) = Num c0" "- 1 \<le> c0" "c0 \<le> 1"
    by (auto simp: corr_def np_corrcoef_def)
  from py_round_range [OF c0(2,3), of 4] obtain c where
    c: "py_round (Num c0) 4 = Num c" "- 1 \<le> c" "c \<le> 1"
    by blast
  from f(4) have "correlation r = py_round (corr (col1 ?R) (col2 ?R)) 4"
    by simp
  then have "correlation r = py_round (Num c0) 4"
    by (simp only: c0(1))
  from this c(1) have "correlation r = Num c" by (rule trans)
  with c(2,3) show ?thesis by blast
qed

subsection \<open>The first and the last date\<close>








end
